theory Spec2Isabelle
  imports Main "HOL-Library.Word"
begin

section \<open>Values crossing the JavaScript boundary\<close>

text \<open>
  The threading module (namespace \<open>LLJS::Threading\<close>) is a set of N-API callbacks. Each
  receives the argument list \<open>info\<close> of the JavaScript call and answers with a JavaScript
  value or a pending JavaScript exception. A \<open>JsNumber n\<close> is the number whose value is
  the integer \<open>n\<close>; numbers with a fractional part, infinities and NaN are not modelled.
  \<open>JsFunction r\<close> is a function; \<open>r\<close> tells whether a call of it returns. Its body is
  otherwise opaque.
\<close>

datatype js_value =
    JsUndefined
  | JsNull
  | JsBoolean bool
  | JsNumber int
  | JsString string
  | JsFunction bool
  | JsExternal
  | JsObject "(string \<times> js_value) list"

datatype js_error = TypeError string | Error string

text \<open>
  What the JavaScript caller observes of one call. The module is built with
  \<open>NAPI_DISABLE_CPP_EXCEPTIONS\<close>: after \<open>ThrowAsJavaScriptException()\<close> the value that
  the callback returns is discarded and the caller sees the exception, hence \<open>Throws\<close>.
  \<open>Blocks\<close>: the call never returns. \<open>Crashes\<close>: the process dies during the
  call. \<open>Undefined\<close>: the source runs into behaviour
  that C++ leaves undefined (signed overflow of a plain \<open>int\<close>, a conversion of a
  number outside the range of \<open>uint64_t\<close>, locking a \<open>std::mutex\<close> the caller
  owns, unlocking a mutex the caller does not own, a null \<open>unique_ptr\<close>) or into a
  failure of an N-API read that the source does not handle (an \<open>id\<close> property that
  is not a number).
\<close>

datatype outcome = Returns js_value | Throws js_error | Blocks | Crashes | Undefined

text \<open>\<open>IsObject()\<close> of the N-API wrapper holds of functions as well as of objects.\<close>

fun IsObject :: "js_value \<Rightarrow> bool" where
  "IsObject (JsObject ps) = True"
| "IsObject (JsFunction r) = True"
| "IsObject v = False"

fun IsNumber :: "js_value \<Rightarrow> bool" where
  "IsNumber (JsNumber n) = True"
| "IsNumber v = False"

fun IsBoolean :: "js_value \<Rightarrow> bool" where
  "IsBoolean (JsBoolean b) = True"
| "IsBoolean v = False"

fun IsFunction :: "js_value \<Rightarrow> bool" where
  "IsFunction (JsFunction r) = True"
| "IsFunction v = False"

text \<open>\<open>info[i]\<close>: the i-th argument, \<open>undefined\<close> beyond \<open>info.Length()\<close>.\<close>

definition arg :: "js_value list \<Rightarrow> nat \<Rightarrow> js_value" where
  "arg info i = (if i < length info then info ! i else JsUndefined)"

text \<open>\<open>Int32Value()\<close>: the low 32 bits of the number, read as two's complement.\<close>

fun Int32Value :: "js_value \<Rightarrow> 32 word" where
  "Int32Value (JsNumber n) = word_of_int n"
| "Int32Value v = 0"

fun BooleanValue :: "js_value \<Rightarrow> bool" where
  "BooleanValue (JsBoolean b) = b"
| "BooleanValue v = False"

fun function_returns :: "js_value \<Rightarrow> bool" where
  "function_returns (JsFunction r) = r"
| "function_returns v = True"

fun Get :: "js_value \<Rightarrow> string \<Rightarrow> js_value" where
  "Get (JsObject ps) k = (case map_of ps k of Some v \<Rightarrow> v | None \<Rightarrow> JsUndefined)"
| "Get v k = JsUndefined"

text \<open>
  \<open>static_cast<uint64_t>(handle.Get("id").As<Napi::Number>().DoubleValue())\<close>:
  defined for a number in the range of \<open>uint64_t\<close> only.
\<close>

definition handle_id :: "js_value \<Rightarrow> 64 word option" where
  "handle_id handle =
     (case Get handle ''id'' of
        JsNumber n \<Rightarrow> if 0 \<le> n \<and> n < 2 ^ 64 then Some (word_of_int n) else None
      | _ \<Rightarrow> None)"

text \<open>
  \<open>static_cast<double>(id)\<close>: a double has a significand of 53 bits, so an id of more
  bits is rounded to the nearest representable value, ties to the even significand.
\<close>

fun bit_length :: "nat \<Rightarrow> nat" where
  "bit_length n = (if n = 0 then 0 else Suc (bit_length (n div 2)))"

declare bit_length.simps [simp del]

definition round_to_double :: "nat \<Rightarrow> nat" where
  "round_to_double n =
     (if n < 2 ^ 53 then n
      else let e = bit_length n - 53;
               q = n div 2 ^ e;
               r = n mod 2 ^ e;
               half = 2 ^ (e - 1)
           in if r < half \<or> (r = half \<and> even q) then q * 2 ^ e else (q + 1) * 2 ^ e)"

definition static_cast_double :: "64 word \<Rightarrow> int" where
  "static_cast_double w = int (round_to_double (unat w))"

section \<open>Native primitives\<close>

datatype platform = Win32 | Linux

text \<open>
  A \<open>std::thread\<close>: whether it is joinable, and whether the work it runs returns.
\<close>

record std_thread =
  joinable :: bool
  finishes :: bool

text \<open>
  A \<open>std::mutex\<close> or \<open>std::recursive_mutex\<close>: free, or held by a thread a number
  of times. The caller of a lock operation is named by a thread number.
\<close>

datatype lock_state = Unlocked | Locked nat nat

datatype lock_result = Acquired lock_state | TimedOut | Never | UB

text \<open>
  \<open>lock()\<close> of a mutex held by another thread never returns here: the callback holds
  \<open>globalMutex\<close> while it waits, and \<open>UnlockMutex\<close> needs \<open>globalMutex\<close> too.
\<close>

fun mutex_lock :: "nat \<Rightarrow> lock_state \<Rightarrow> lock_result" where
  "mutex_lock caller Unlocked = Acquired (Locked caller 1)"
| "mutex_lock caller (Locked owner d) = (if owner = caller then UB else Never)"

fun mutex_try_lock_for :: "nat \<Rightarrow> lock_state \<Rightarrow> lock_result" where
  "mutex_try_lock_for caller Unlocked = Acquired (Locked caller 1)"
| "mutex_try_lock_for caller (Locked owner d) = (if owner = caller then UB else TimedOut)"

fun mutex_unlock :: "nat \<Rightarrow> lock_state \<Rightarrow> lock_state option" where
  "mutex_unlock caller Unlocked = None"
| "mutex_unlock caller (Locked owner d) = (if owner = caller then Some Unlocked else None)"

fun recursive_lock :: "nat \<Rightarrow> lock_state \<Rightarrow> lock_result" where
  "recursive_lock caller Unlocked = Acquired (Locked caller 1)"
| "recursive_lock caller (Locked owner d) =
     (if owner = caller then Acquired (Locked owner (d + 1)) else Never)"

fun recursive_try_lock_for :: "nat \<Rightarrow> lock_state \<Rightarrow> lock_result" where
  "recursive_try_lock_for caller Unlocked = Acquired (Locked caller 1)"
| "recursive_try_lock_for caller (Locked owner d) =
     (if owner = caller then Acquired (Locked owner (d + 1)) else TimedOut)"

fun recursive_unlock :: "nat \<Rightarrow> lock_state \<Rightarrow> lock_state option" where
  "recursive_unlock caller Unlocked = None"
| "recursive_unlock caller (Locked owner d) =
     (if owner = caller then Some (if d \<le> 1 then Unlocked else Locked owner (d - 1))
      else None)"

text \<open>
  The semaphore of the operating system: its count and the largest count it accepts.
  On Windows the limit is the \<open>lMaximumCount\<close> given to \<open>CreateSemaphoreA\<close>; a
  POSIX semaphore is limited by the constant \<open>SEM_VALUE_MAX\<close> of the C library.
\<close>

record os_semaphore =
  sem_value :: nat
  sem_limit :: nat

text \<open>
  \<open>SEM_VALUE_MAX\<close> comes from the C library, not from the repository. The
  non-Windows branch of the source targets Linux (\<open>syscall(SYS_gettid)\<close>, the
  \<open>/proc\<close> file system), whose C libraries define it as \<open>INT_MAX\<close>.
\<close>

definition SEM_VALUE_MAX :: nat where
  "SEM_VALUE_MAX = 2147483647"

definition CreateSemaphoreA :: "32 word \<Rightarrow> 32 word \<Rightarrow> os_semaphore" where
  "CreateSemaphoreA initialCount maxCount =
     \<lparr>sem_value = nat (sint initialCount), sem_limit = nat (sint maxCount)\<rparr>"

text \<open>
  \<open>sem_open(name, O_CREAT, 0644, initialCount)\<close>. The C library reads the name: with
  a null name it dereferences a null pointer and the process dies, which is \<open>None\<close>
  here.
\<close>

fun sem_open :: "string option \<Rightarrow> 32 word \<Rightarrow> os_semaphore option" where
  "sem_open None initialCount = None"
| "sem_open (Some name) initialCount =
     Some \<lparr>sem_value = nat (sint initialCount), sem_limit = SEM_VALUE_MAX\<rparr>"

datatype os_create = Granted os_semaphore | Refused | Dies

datatype wait_result = Decremented os_semaphore | WaitFailed | WaitsForever

text \<open>
  \<open>WaitForSingleObject\<close> and \<open>sem_wait\<close>: a positive count is taken at once. At
  count zero a timed wait gives up; an infinite one never returns, since the only
  release is \<open>SignalSemaphore\<close>, which needs the \<open>globalMutex\<close> that the waiting
  callback holds.
\<close>

definition os_wait :: "bool \<Rightarrow> os_semaphore \<Rightarrow> wait_result" where
  "os_wait forever sem =
     (if 0 < sem_value sem then Decremented (sem\<lparr>sem_value := sem_value sem - 1\<rparr>)
      else if forever then WaitsForever else WaitFailed)"

text \<open>
  The remainder of C, which takes the sign of the dividend, and \<open>sem_timedwait\<close>
  with the field \<open>tv_nsec\<close> of its deadline: the C library of Linux refuses
  (\<open>EINVAL\<close>) a \<open>tv_nsec\<close> outside \<open>[0, 10^9)\<close> before it looks at the count.
\<close>

definition c_rem :: "int \<Rightarrow> int \<Rightarrow> int" where
  "c_rem a b = sgn a * (\<bar>a\<bar> mod \<bar>b\<bar>)"

definition sem_timedwait :: "os_semaphore \<Rightarrow> int \<Rightarrow> wait_result" where
  "sem_timedwait sem tv_nsec =
     (if tv_nsec < 0 \<or> 1000000000 \<le> tv_nsec then WaitFailed else os_wait False sem)"

text \<open>\<open>ReleaseSemaphore\<close> adds the whole count or nothing.\<close>

definition ReleaseSemaphore :: "os_semaphore \<Rightarrow> nat \<Rightarrow> bool \<times> os_semaphore" where
  "ReleaseSemaphore sem n =
     (if sem_value sem + n \<le> sem_limit sem then (True, sem\<lparr>sem_value := sem_value sem + n\<rparr>)
      else (False, sem))"

text \<open>\<open>sem_post\<close> adds one, or fails (\<open>EOVERFLOW\<close>) at the limit.\<close>

definition sem_post :: "os_semaphore \<Rightarrow> bool \<times> os_semaphore" where
  "sem_post sem =
     (if sem_value sem < sem_limit sem then (True, sem\<lparr>sem_value := sem_value sem + 1\<rparr>)
      else (False, sem))"

text \<open>
  \<open>for (int i = 0; i < count; i++) if (sem_post(...) != 0) return -1;\<close>
  with the number of rounds still to run: the posts done before a failure stay.
\<close>

fun sem_post_loop :: "nat \<Rightarrow> os_semaphore \<Rightarrow> bool \<times> os_semaphore" where
  "sem_post_loop 0 sem = (True, sem)"
| "sem_post_loop (Suc n) sem =
     (case sem_post sem of
        (True, sem') \<Rightarrow> sem_post_loop n sem'
      | (False, sem') \<Rightarrow> (False, sem'))"

section \<open>The registry\<close>

text \<open>
  The structs \<open>ThreadInfo\<close>, \<open>MutexInfo\<close> and \<open>SemaphoreInfo\<close>. Their field \<open>id\<close>
  is written \<open>threadInfo_id\<close>, \<open>mutexInfo_id\<close> and \<open>semInfo_id\<close>. A \<open>unique_ptr\<close> is
  an option, \<open>None\<close> when null. An \<open>int\<close> is a 32-bit word read with \<open>sint\<close>.
\<close>

record ThreadInfo =
  thread :: "std_thread option"
  running :: bool
  exitCode :: "32 word"
  threadInfo_id :: "64 word"

record MutexInfo =
  mutex :: "lock_state option"
  recursiveMutex :: "lock_state option"
  mutexInfo_id :: "64 word"
  isRecursive :: bool

record SemaphoreInfo =
  semaphore :: os_semaphore
  semInfo_id :: "64 word"
  maxCount :: "32 word"
  currentCount :: "32 word"

text \<open>
  The globals of the module. Every callback holds \<open>globalMutex\<close> from its lookup to
  its return, and a creating callback inserts under it, so the calls act one after
  another on this state.
\<close>

record registry =
  threadCounter :: "64 word"
  mutexCounter :: "64 word"
  semaphoreCounter :: "64 word"
  threads :: "64 word \<rightharpoonup> ThreadInfo"
  mutexes :: "64 word \<rightharpoonup> MutexInfo"
  semaphores :: "64 word \<rightharpoonup> SemaphoreInfo"

definition initial :: registry where
  "initial = \<lparr>threadCounter = 0, mutexCounter = 0, semaphoreCounter = 0,
              threads = Map.empty, mutexes = Map.empty, semaphores = Map.empty\<rparr>"

section \<open>Threads\<close>

text \<open>
  \<open>CreateThread\<close>. What becomes of the new thread is an input. \<open>NotStarted what\<close>:
  the operating system does not start it, and \<open>what\<close> is the text of the
  \<open>std::system_error\<close>. \<open>Started\<close>: it runs. \<open>Died\<close>: the thread calls the
  JavaScript function off the JavaScript thread and the process dies of it; the
  death may come at any later moment and is put at the call that spawned the
  thread. The counter has been advanced in all three cases.
\<close>

datatype spawn = NotStarted string | Started | Died

definition CreateThread :: "spawn \<Rightarrow> js_value list \<Rightarrow> registry \<Rightarrow> outcome \<times> registry" where
  "CreateThread spawned info s =
     (if length info < 1 \<or> \<not> IsFunction (arg info 0)
      then (Throws (TypeError ''Function parameter required''), s)
      else
        let threadId = threadCounter s + 1;
            s1 = s\<lparr>threadCounter := threadId\<rparr>
        in case spawned of
             NotStarted what \<Rightarrow> (Throws (Error (''Failed to create thread: '' @ what)), s1)
           | Died \<Rightarrow> (Crashes, s1)
           | Started \<Rightarrow>
               (Returns (JsObject [(''id'', JsNumber (static_cast_double threadId)),
                                   (''handle'', JsExternal)]),
                s1\<lparr>threads := (threads s1)(threadId \<mapsto>
                      \<lparr>thread = Some \<lparr>joinable = True,
                                       finishes = function_returns (arg info 0)\<rparr>,
                       running = True, exitCode = 0, threadInfo_id = threadId\<rparr>)\<rparr>))"

definition JoinThread :: "js_value list \<Rightarrow> registry \<Rightarrow> outcome \<times> registry" where
  "JoinThread info s =
     (if length info < 1 \<or> \<not> IsObject (arg info 0)
      then (Throws (TypeError ''Thread handle object required''), s)
      else case handle_id (arg info 0) of
        None \<Rightarrow> (Undefined, s)
      | Some threadId \<Rightarrow>
          (case threads s threadId of
             None \<Rightarrow> (Throws (Error ''Invalid thread handle''), s)
           | Some it \<Rightarrow>
               if (case thread it of Some t \<Rightarrow> joinable t \<and> \<not> finishes t | None \<Rightarrow> False)
               then (Blocks, s)
               else (Returns (JsNumber (sint (exitCode it))),
                     s\<lparr>threads := (threads s)(threadId := None)\<rparr>)))"

definition DetachThread :: "js_value list \<Rightarrow> registry \<Rightarrow> outcome \<times> registry" where
  "DetachThread info s =
     (if length info < 1 \<or> \<not> IsObject (arg info 0)
      then (Throws (TypeError ''Thread handle object required''), s)
      else case handle_id (arg info 0) of
        None \<Rightarrow> (Undefined, s)
      | Some threadId \<Rightarrow>
          (case threads s threadId of
             None \<Rightarrow> (Returns (JsBoolean False), s)
           | Some it \<Rightarrow>
               (Returns (JsBoolean True), s\<lparr>threads := (threads s)(threadId := None)\<rparr>)))"

section \<open>Mutexes\<close>

definition CreateMutex :: "js_value list \<Rightarrow> registry \<Rightarrow> outcome \<times> registry" where
  "CreateMutex info s =
     (let recursive = (if length info > 0 \<and> IsBoolean (arg info 0)
                       then BooleanValue (arg info 0) else False);
          mutexId = mutexCounter s + 1;
          s1 = s\<lparr>mutexCounter := mutexId\<rparr>
      in (Returns (JsObject [(''id'', JsNumber (static_cast_double mutexId)),
                             (''handle'', JsExternal)]),
          s1\<lparr>mutexes := (mutexes s1)(mutexId \<mapsto>
                \<lparr>mutex = (if recursive then None else Some Unlocked),
                 recursiveMutex = (if recursive then Some Unlocked else None),
                 mutexInfo_id = mutexId, isRecursive = recursive\<rparr>)\<rparr>))"

text \<open>
  The source calls \<open>try_lock_for\<close> on both kinds of mutex, as on a
  \<open>std::timed_mutex\<close>; a timed attempt on a free mutex is taken to succeed.
\<close>

definition LockMutex :: "nat \<Rightarrow> js_value list \<Rightarrow> registry \<Rightarrow> outcome \<times> registry" where
  "LockMutex caller info s =
     (if length info < 1 \<or> \<not> IsObject (arg info 0)
      then (Throws (TypeError ''Mutex handle object required''), s)
      else case handle_id (arg info 0) of
        None \<Rightarrow> (Undefined, s)
      | Some mutexId \<Rightarrow>
          let timeout = (if length info > 1 \<and> IsNumber (arg info 1)
                         then Int32Value (arg info 1) else - 1)
          in (case mutexes s mutexId of
               None \<Rightarrow> (Returns (JsBoolean False), s)
             | Some it \<Rightarrow>
                 if isRecursive it then
                   (case recursiveMutex it of
                      None \<Rightarrow> (Undefined, s)
                    | Some m \<Rightarrow>
                        (case (if timeout = - 1 then recursive_lock caller m
                               else recursive_try_lock_for caller m) of
                           Acquired m' \<Rightarrow>
                             (Returns (JsBoolean True),
                              s\<lparr>mutexes := (mutexes s)(mutexId \<mapsto> it\<lparr>recursiveMutex := Some m'\<rparr>)\<rparr>)
                         | TimedOut \<Rightarrow> (Returns (JsBoolean False), s)
                         | Never \<Rightarrow> (Blocks, s)
                         | UB \<Rightarrow> (Undefined, s)))
                 else
                   (case mutex it of
                      None \<Rightarrow> (Undefined, s)
                    | Some m \<Rightarrow>
                        (case (if timeout = - 1 then mutex_lock caller m
                               else mutex_try_lock_for caller m) of
                           Acquired m' \<Rightarrow>
                             (Returns (JsBoolean True),
                              s\<lparr>mutexes := (mutexes s)(mutexId \<mapsto> it\<lparr>mutex := Some m'\<rparr>)\<rparr>)
                         | TimedOut \<Rightarrow> (Returns (JsBoolean False), s)
                         | Never \<Rightarrow> (Blocks, s)
                         | UB \<Rightarrow> (Undefined, s)))))"

definition UnlockMutex :: "nat \<Rightarrow> js_value list \<Rightarrow> registry \<Rightarrow> outcome \<times> registry" where
  "UnlockMutex caller info s =
     (if length info < 1 \<or> \<not> IsObject (arg info 0)
      then (Throws (TypeError ''Mutex handle object required''), s)
      else case handle_id (arg info 0) of
        None \<Rightarrow> (Undefined, s)
      | Some mutexId \<Rightarrow>
          (case mutexes s mutexId of
             None \<Rightarrow> (Returns (JsBoolean False), s)
           | Some it \<Rightarrow>
               if isRecursive it then
                 (case recursiveMutex it of
                    None \<Rightarrow> (Undefined, s)
                  | Some m \<Rightarrow>
                      (case recursive_unlock caller m of
                         None \<Rightarrow> (Undefined, s)
                       | Some m' \<Rightarrow>
                           (Returns (JsBoolean True),
                            s\<lparr>mutexes := (mutexes s)(mutexId \<mapsto> it\<lparr>recursiveMutex := Some m'\<rparr>)\<rparr>)))
               else
                 (case mutex it of
                    None \<Rightarrow> (Undefined, s)
                  | Some m \<Rightarrow>
                      (case mutex_unlock caller m of
                         None \<Rightarrow> (Undefined, s)
                       | Some m' \<Rightarrow>
                           (Returns (JsBoolean True),
                            s\<lparr>mutexes := (mutexes s)(mutexId \<mapsto> it\<lparr>mutex := Some m'\<rparr>)\<rparr>)))))"

section \<open>Semaphores\<close>

text \<open>
  \<open>CreateSemaphore\<close>. On Windows, whether \<open>CreateSemaphoreA\<close> hands out a
  semaphore (not \<open>NULL\<close>) is the input \<open>os_created\<close>. Elsewhere the source calls
  \<open>sem_open(nullptr, O_CREAT, 0644, initialCount)\<close>, with a null name. The counter
  has been advanced by then.
\<close>

definition CreateSemaphore ::
    "platform \<Rightarrow> bool \<Rightarrow> js_value list \<Rightarrow> registry \<Rightarrow> outcome \<times> registry" where
  "CreateSemaphore pf os_created info s =
     (if length info < 2 \<or> \<not> IsNumber (arg info 0) \<or> \<not> IsNumber (arg info 1)
      then (Throws (TypeError ''Initial count and max count parameters required''), s)
      else
        let initialCount = Int32Value (arg info 0);
            maxCount' = Int32Value (arg info 1)
        in if sint initialCount < 0 \<or> sint maxCount' \<le> 0 \<or> sint initialCount > sint maxCount'
           then (Throws (TypeError ''Invalid semaphore parameters''), s)
           else
             let semId = semaphoreCounter s + 1;
                 s1 = s\<lparr>semaphoreCounter := semId\<rparr>
             in (case (case pf of
                         Win32 \<Rightarrow>
                           if os_created then Granted (CreateSemaphoreA initialCount maxCount')
                           else Refused
                       | Linux \<Rightarrow>
                           (case sem_open None initialCount of
                              None \<Rightarrow> Dies
                            | Some sem \<Rightarrow> if os_created then Granted sem else Refused)) of
                   Dies \<Rightarrow> (Crashes, s1)
                 | Refused \<Rightarrow> (Throws (Error ''Failed to create semaphore''), s1)
                 | Granted sem \<Rightarrow>
                     (Returns (JsObject [(''id'', JsNumber (static_cast_double semId)),
                                         (''handle'', JsExternal),
                                         (''count'', JsNumber (sint initialCount))]),
                      s1\<lparr>semaphores := (semaphores s1)(semId \<mapsto>
                            \<lparr>semaphore = sem, semInfo_id = semId, maxCount = maxCount',
                             currentCount = initialCount\<rparr>)\<rparr>)))"

text \<open>
  \<open>WaitSemaphore\<close>. On Linux the deadline of a timed wait is the clock's time
  plus the timeout, with \<open>ts.tv_nsec += (timeout % 1000) * 1000000\<close> left as it
  comes out; \<open>now_nsec\<close> is the \<open>tv_nsec\<close> that \<open>clock_gettime\<close> gave. The
  decrement \<open>currentCount--\<close> is atomic: it wraps around.
\<close>

definition WaitSemaphore ::
    "platform \<Rightarrow> nat \<Rightarrow> js_value list \<Rightarrow> registry \<Rightarrow> outcome \<times> registry" where
  "WaitSemaphore pf now_nsec info s =
     (if length info < 1 \<or> \<not> IsObject (arg info 0)
      then (Throws (TypeError ''Semaphore handle object required''), s)
      else case handle_id (arg info 0) of
        None \<Rightarrow> (Undefined, s)
      | Some semId \<Rightarrow>
          let timeout = (if length info > 1 \<and> IsNumber (arg info 1)
                         then Int32Value (arg info 1) else - 1)
          in (case semaphores s semId of
               None \<Rightarrow> (Returns (JsBoolean False), s)
             | Some it \<Rightarrow>
                 (case (if timeout = - 1 then os_wait True (semaphore it)
                        else case pf of
                          Win32 \<Rightarrow> os_wait False (semaphore it)
                        | Linux \<Rightarrow>
                            sem_timedwait (semaphore it)
                              (int now_nsec + c_rem (sint timeout) 1000 * 1000000)) of
                    Decremented sem' \<Rightarrow>
                      (Returns (JsBoolean True),
                       s\<lparr>semaphores := (semaphores s)(semId \<mapsto>
                             it\<lparr>semaphore := sem', currentCount := currentCount it - 1\<rparr>)\<rparr>)
                  | WaitFailed \<Rightarrow> (Returns (JsBoolean False), s)
                  | WaitsForever \<Rightarrow> (Blocks, s))))"

text \<open>
  \<open>previousCount + count\<close> is an addition of two \<open>int\<close>: beyond \<open>INT_MAX\<close> it is
  undefined. \<open>currentCount += count\<close> is atomic and wraps around. A release that the
  operating system refuses returns \<open>-1\<close>; what the loop of \<open>sem_post\<close> has posted by
  then stays posted.
\<close>

definition SignalSemaphore ::
    "platform \<Rightarrow> js_value list \<Rightarrow> registry \<Rightarrow> outcome \<times> registry" where
  "SignalSemaphore pf info s =
     (if length info < 1 \<or> \<not> IsObject (arg info 0)
      then (Throws (TypeError ''Semaphore handle object required''), s)
      else case handle_id (arg info 0) of
        None \<Rightarrow> (Undefined, s)
      | Some semId \<Rightarrow>
          let count = (if length info > 1 \<and> IsNumber (arg info 1)
                       then Int32Value (arg info 1) else 1)
          in if sint count \<le> 0 then (Returns (JsNumber (- 1)), s)
             else (case semaphores s semId of
               None \<Rightarrow> (Returns (JsNumber (- 1)), s)
             | Some it \<Rightarrow>
                 let previousCount = currentCount it
                 in if sint previousCount + sint count > 2147483647 then (Undefined, s)
                    else if sint previousCount + sint count > sint (maxCount it)
                    then (Returns (JsNumber (- 1)), s)
                    else
                      (case (case pf of
                               Win32 \<Rightarrow> ReleaseSemaphore (semaphore it) (nat (sint count))
                             | Linux \<Rightarrow> sem_post_loop (nat (sint count)) (semaphore it)) of
                         (False, sem') \<Rightarrow>
                           (Returns (JsNumber (- 1)),
                            s\<lparr>semaphores := (semaphores s)(semId \<mapsto> it\<lparr>semaphore := sem'\<rparr>)\<rparr>)
                       | (True, sem') \<Rightarrow>
                           (Returns (JsNumber (sint previousCount)),
                            s\<lparr>semaphores := (semaphores s)(semId \<mapsto>
                                  it\<lparr>semaphore := sem',
                                     currentCount := currentCount it + count\<rparr>)\<rparr>))))"

section \<open>Sequences of calls\<close>

text \<open>
  One call of the exported interface, with the inputs that come from outside the
  program: what becomes of a new thread, the calling thread of a lock or unlock,
  whether the operating system grants a semaphore, and the clock of a timed wait.
\<close>

datatype call =
    CallCreateThread spawn "js_value list"
  | CallJoinThread "js_value list"
  | CallDetachThread "js_value list"
  | CallCreateMutex "js_value list"
  | CallLockMutex nat "js_value list"
  | CallUnlockMutex nat "js_value list"
  | CallCreateSemaphore bool "js_value list"
  | CallWaitSemaphore nat "js_value list"
  | CallSignalSemaphore "js_value list"

fun exec :: "platform \<Rightarrow> call \<Rightarrow> registry \<Rightarrow> outcome \<times> registry" where
  "exec pf (CallCreateThread spawned info) s = CreateThread spawned info s"
| "exec pf (CallJoinThread info) s = JoinThread info s"
| "exec pf (CallDetachThread info) s = DetachThread info s"
| "exec pf (CallCreateMutex info) s = CreateMutex info s"
| "exec pf (CallLockMutex caller info) s = LockMutex caller info s"
| "exec pf (CallUnlockMutex caller info) s = UnlockMutex caller info s"
| "exec pf (CallCreateSemaphore os_created info) s = CreateSemaphore pf os_created info s"
| "exec pf (CallWaitSemaphore now_nsec info) s = WaitSemaphore pf now_nsec info s"
| "exec pf (CallSignalSemaphore info) s = SignalSemaphore pf info s"

text \<open>
  A call that blocks holds \<open>globalMutex\<close> for ever, a crash ends the process, and
  nothing is known after undefined behaviour: in these cases the sequence ends there.
\<close>

fun continues :: "outcome \<Rightarrow> bool" where
  "continues (Returns v) = True"
| "continues (Throws e) = True"
| "continues Blocks = False"
| "continues Crashes = False"
| "continues Undefined = False"

fun run :: "platform \<Rightarrow> call list \<Rightarrow> registry \<Rightarrow> registry" where
  "run pf [] s = s"
| "run pf (c # cs) s =
     (let (r, s') = exec pf c s in if continues r then run pf cs s' else s')"

fun outcomes :: "platform \<Rightarrow> call list \<Rightarrow> registry \<Rightarrow> outcome list" where
  "outcomes pf [] s = []"
| "outcomes pf (c # cs) s =
     (let (r, s') = exec pf c s in r # (if continues r then outcomes pf cs s' else []))"

section \<open>Well-formed semaphores and issued ids\<close>

text \<open>
  A semaphore entry is well formed when its mirror \<open>currentCount\<close> lies between 0 and
  \<open>maxCount\<close> and agrees with the count of the operating system's semaphore, whose
  limit is the one given at creation.
\<close>

definition sem_ok :: "platform \<Rightarrow> SemaphoreInfo \<Rightarrow> bool" where
  "sem_ok pf it \<longleftrightarrow>
     0 \<le> sint (currentCount it) \<and> sint (currentCount it) \<le> sint (maxCount it) \<and>
     sem_value (semaphore it) = nat (sint (currentCount it)) \<and>
     sem_limit (semaphore it) =
       (case pf of Win32 \<Rightarrow> nat (sint (maxCount it)) | Linux \<Rightarrow> SEM_VALUE_MAX)"

definition sem_inv :: "platform \<Rightarrow> registry \<Rightarrow> bool" where
  "sem_inv pf s \<longleftrightarrow> (\<forall>i it. semaphores s i = Some it \<longrightarrow> sem_ok pf it)"

text \<open>
  The three kinds of resource, each with its counter \<open>threadCounter\<close>,
  \<open>mutexCounter\<close> or \<open>semaphoreCounter\<close>, and the kind that a call creates.
\<close>

datatype kind = ThreadKind | MutexKind | SemaphoreKind

fun counter :: "kind \<Rightarrow> registry \<Rightarrow> 64 word" where
  "counter ThreadKind s = threadCounter s"
| "counter MutexKind s = mutexCounter s"
| "counter SemaphoreKind s = semaphoreCounter s"


text \<open>
  The id issued with a handle: the id that the module reads from the handle, given
  that the registry of the kind holds an entry under it and that the entry stores
  this very id. \<open>issued\<close> lists, for the creations of one kind in a sequence of
  calls, the id issued with each handle that a creation returns, in order.
\<close>

fun stored_id :: "kind \<Rightarrow> registry \<Rightarrow> 64 word \<Rightarrow> 64 word option" where
  "stored_id ThreadKind s i = map_option threadInfo_id (threads s i)"
| "stored_id MutexKind s i = map_option mutexInfo_id (mutexes s i)"
| "stored_id SemaphoreKind s i = map_option semInfo_id (semaphores s i)"

definition issued_id :: "kind \<Rightarrow> registry \<Rightarrow> js_value \<Rightarrow> 64 word option" where
  "issued_id k s handle =
     (case handle_id handle of
        None \<Rightarrow> None
      | Some i \<Rightarrow> if stored_id k s i = Some i then Some i else None)"


text \<open>
  The ids of the live entries of one kind, and the agreement between the key of an
  entry and the id stored in it.
\<close>

fun live :: "kind \<Rightarrow> registry \<Rightarrow> 64 word set" where
  "live ThreadKind s = dom (threads s)"
| "live MutexKind s = dom (mutexes s)"
| "live SemaphoreKind s = dom (semaphores s)"

definition ids_match :: "registry \<Rightarrow> bool" where
  "ids_match s \<longleftrightarrow>
     (\<forall>i t. threads s i = Some t \<longrightarrow> threadInfo_id t = i) \<and>
     (\<forall>i m. mutexes s i = Some m \<longrightarrow> mutexInfo_id m = i) \<and>
     (\<forall>i x. semaphores s i = Some x \<longrightarrow> semInfo_id x = i)"

section \<open>Conversions at the boundary\<close>

lemma sint_int32_small:
  "0 \<le> x \<Longrightarrow> x < 2147483648 \<Longrightarrow> sint (word_of_int x :: 32 word) = x"
  by (simp add: sint_sbintrunc' signed_take_bit_int_eq_self)

lemma sint_int32_large:
  "2147483648 \<le> x \<Longrightarrow> x < 4294967296 \<Longrightarrow> sint (word_of_int x :: 32 word) = x - 4294967296"
proof -
  assume a: "2147483648 \<le> x" "x < 4294967296"
  have "(x + 2147483648) mod 4294967296 = (x + 2147483648 - 4294967296) mod 4294967296"
    by (simp only: minus_mod_self2)
  also have "\<dots> = x - 2147483648"
    using a by (simp add: mod_pos_pos_trivial)
  finally show ?thesis
    by (simp add: sint_sbintrunc' signed_take_bit_eq_take_bit_shift take_bit_eq_mod)
qed

text \<open>Below \<open>2 ^ 53\<close> an id survives the trip through a JavaScript number.\<close>

lemma static_cast_double_exact: "unat w < 2 ^ 53 \<Longrightarrow> static_cast_double w = uint w"
  by (simp add: static_cast_double_def round_to_double_def)

lemma handle_id_static_cast:
  assumes "unat w < 2 ^ 53"
  shows "handle_id (JsObject ((''id'', JsNumber (static_cast_double w)) # ps)) = Some w"
proof -
  have "uint w < 2 ^ 64" using uint_bounded [of w] by simp
  then show ?thesis
    by (simp add: handle_id_def static_cast_double_exact [OF assms])
qed

lemma sem_post_loop_fits:
  "sem_value sem + n \<le> sem_limit sem \<Longrightarrow>
   sem_post_loop n sem = (True, sem\<lparr>sem_value := sem_value sem + n\<rparr>)"
  by (induction n arbitrary: sem) (simp_all add: sem_post_def)

text \<open>The next id of a counter that has room, and the definitions that evaluate a call.\<close>

lemma unat_next_id: "unat (c :: 64 word) + 1 < 2 ^ 64 \<Longrightarrow> unat (c + 1) = unat c + 1"
  by (simp add: unat_word_ariths)

lemmas eval_defs = initial_def arg_def handle_id_def static_cast_double_def round_to_double_def
  CreateThread_def JoinThread_def DetachThread_def CreateMutex_def LockMutex_def UnlockMutex_def
  CreateSemaphore_def WaitSemaphore_def SignalSemaphore_def CreateSemaphoreA_def
  os_wait_def sem_timedwait_def c_rem_def ReleaseSemaphore_def sem_post_def SEM_VALUE_MAX_def
  issued_id_def

section \<open>Creation of a semaphore with bad bounds\<close>

text \<open>
  Claim C9. \<open>createSemaphore(initialCount, maxCount)\<close> with unsigned 32-bit arguments
  fails when \<open>initialCount > maxCount\<close> or \<open>maxCount = 0\<close>: it throws the TypeError
  "Invalid semaphore parameters", which is how the source reports a validation
  error, and the registry is left exactly as it was, so no id is taken from the
  counter and no entry is created. This holds on both platforms and whatever the
  operating system would have answered.
\<close>

theorem CreateSemaphore_rejects_bad_bounds:
  assumes "0 \<le> i" "i < 4294967296" "0 \<le> m" "m < 4294967296"
    and "m < i \<or> m = 0"
  shows "CreateSemaphore pf os_created (JsNumber i # JsNumber m # rest) s =
         (Throws (TypeError ''Invalid semaphore parameters''), s)"
proof -
  have "sint (word_of_int i :: 32 word) < 0 \<or> sint (word_of_int m :: 32 word) \<le> 0
        \<or> sint (word_of_int m :: 32 word) < sint (word_of_int i :: 32 word)"
  proof (cases "i < 2147483648")
    case False
    then show ?thesis using assms by (simp add: sint_int32_large)
  next
    case i: True
    show ?thesis
    proof (cases "m < 2147483648")
      case False
      then show ?thesis using assms by (simp add: sint_int32_large)
    next
      case True
      then show ?thesis using assms i by (auto simp add: sint_int32_small)
    qed
  qed
  then show ?thesis
    by (auto simp add: CreateSemaphore_def arg_def)
qed

theorem CreateSemaphore_rejects_bad_bounds_witness:
  "(5 < (6::int) \<or> (5::int) = 0) \<and>
   CreateSemaphore Win32 True [JsNumber 6, JsNumber 5] initial =
     (Throws (TypeError ''Invalid semaphore parameters''), initial) \<and>
   CreateSemaphore Linux True [JsNumber 3, JsNumber 0] initial =
     (Throws (TypeError ''Invalid semaphore parameters''), initial)"
  using CreateSemaphore_rejects_bad_bounds [of 6 5 Win32 True "[]" initial]
    CreateSemaphore_rejects_bad_bounds [of 3 0 Linux True "[]" initial]
  by simp

section \<open>A semaphore of two out of five\<close>

text \<open>
  Claim C3. On Windows, after \<open>createSemaphore(2, 5)\<close> the first two
  \<open>waitSemaphore\<close> calls succeed, a third one with timeout 0 returns \<open>false\<close>, and
  after one \<open>signalSemaphore\<close> a further \<open>waitSemaphore\<close> succeeds. Here \<open>h\<close> is the
  handle that the creation returns; the operating system grants the semaphore; the
  sequence starts in any registry whose next semaphore id is below \<open>2 ^ 53\<close>, where
  the handle carries the id exactly. The signal returns the previous count 0.
\<close>

theorem semaphore_two_of_five:
  assumes "unat (semaphoreCounter s) + 1 < 2 ^ 53"
  shows "\<exists>h. outcomes Win32
           [CallCreateSemaphore True [JsNumber 2, JsNumber 5],
            CallWaitSemaphore n1 [h], CallWaitSemaphore n2 [h],
            CallWaitSemaphore n3 [h, JsNumber 0],
            CallSignalSemaphore [h],
            CallWaitSemaphore n4 [h]] s =
           [Returns h, Returns (JsBoolean True), Returns (JsBoolean True),
            Returns (JsBoolean False),
            Returns (JsNumber 0),
            Returns (JsBoolean True)]"
proof -
  define c where "c = semaphoreCounter s + 1"
  have "unat c = unat (semaphoreCounter s) + 1"
    unfolding c_def using assms by (intro unat_next_id) simp
  then have uc: "unat c < 2 ^ 53" using assms by simp
  note hid = handle_id_static_cast [OF uc]
  let ?h = "JsObject [(''id'', JsNumber (static_cast_double c)), (''handle'', JsExternal),
                      (''count'', JsNumber 2)]"
  have "outcomes Win32
           [CallCreateSemaphore True [JsNumber 2, JsNumber 5],
            CallWaitSemaphore n1 [?h], CallWaitSemaphore n2 [?h],
            CallWaitSemaphore n3 [?h, JsNumber 0],
            CallSignalSemaphore [?h],
            CallWaitSemaphore n4 [?h]] s =
           [Returns ?h, Returns (JsBoolean True), Returns (JsBoolean True),
            Returns (JsBoolean False),
            Returns (JsNumber 0),
            Returns (JsBoolean True)]"
    by (simp add: hid c_def [symmetric] CreateSemaphore_def WaitSemaphore_def
        SignalSemaphore_def arg_def os_wait_def CreateSemaphoreA_def ReleaseSemaphore_def)
  then show ?thesis by blast
qed

theorem semaphore_two_of_five_witness:
  "\<exists>h. outcomes Win32
           [CallCreateSemaphore True [JsNumber 2, JsNumber 5],
            CallWaitSemaphore 0 [h], CallWaitSemaphore 0 [h],
            CallWaitSemaphore 0 [h, JsNumber 0],
            CallSignalSemaphore [h],
            CallWaitSemaphore 0 [h]] initial =
           [Returns h, Returns (JsBoolean True), Returns (JsBoolean True),
            Returns (JsBoolean False),
            Returns (JsNumber 0),
            Returns (JsBoolean True)]"
  using semaphore_two_of_five [of initial 0 0 0 0] by (simp add: initial_def)

text \<open>
  On the other platform the sequence does not get past its first call: with valid
  bounds \<open>CreateSemaphore\<close> reaches \<open>sem_open\<close> with a null name and the process
  dies, whatever the registry. No semaphore is ever registered there.
\<close>

lemma CreateSemaphore_Linux_crashes:
  "fst (CreateSemaphore Linux os_created [JsNumber 2, JsNumber 5] s) = Crashes"
  by (simp add: CreateSemaphore_def arg_def)

lemma outcomes_Linux_two_of_five:
  "outcomes Linux (CallCreateSemaphore os_created [JsNumber 2, JsNumber 5] # cs) s = [Crashes]"
  by (simp add: CreateSemaphore_def arg_def)

section \<open>The failures of a signal\<close>

text \<open>
  Claim C10. \<open>signalSemaphore\<close> checks the release count before it looks the handle
  up: with a count \<open>\<le> 0\<close> it returns \<open>-1\<close> in every registry, known handle or not,
  and returns the registry as it was. An unknown handle returns \<open>-1\<close> too, and so
  does a release that would exceed \<open>maxCount\<close>: the three failures give the caller
  the same value and the same, unchanged, registry.
\<close>

theorem SignalSemaphore_failures_share_sentinel:
  assumes "IsObject h" and "handle_id h = Some semId"
  shows "(sint (Int32Value (JsNumber c)) \<le> 0 \<longrightarrow>
            SignalSemaphore pf (h # JsNumber c # rest) s = (Returns (JsNumber (- 1)), s)) \<and>
         (semaphores s semId = None \<longrightarrow>
            SignalSemaphore pf (h # args) s = (Returns (JsNumber (- 1)), s)) \<and>
         (\<forall>it. semaphores s semId = Some it \<and> 0 < sint (Int32Value (JsNumber c)) \<and>
               sint (currentCount it) + sint (Int32Value (JsNumber c)) \<le> 2147483647 \<and>
               sint (maxCount it) < sint (currentCount it) + sint (Int32Value (JsNumber c)) \<longrightarrow>
            SignalSemaphore pf (h # JsNumber c # rest) s = (Returns (JsNumber (- 1)), s))"
  using assms by (auto simp add: SignalSemaphore_def arg_def Let_def)

theorem SignalSemaphore_failures_share_sentinel_witness:
  "SignalSemaphore Win32 [JsObject [(''id'', JsNumber 1)], JsNumber 0]
     (snd (CreateSemaphore Win32 True [JsNumber 2, JsNumber 5] initial)) =
     (Returns (JsNumber (- 1)), snd (CreateSemaphore Win32 True [JsNumber 2, JsNumber 5] initial)) \<and>
   SignalSemaphore Win32 [JsObject [(''id'', JsNumber 9)], JsNumber 1]
     (snd (CreateSemaphore Win32 True [JsNumber 2, JsNumber 5] initial)) =
     (Returns (JsNumber (- 1)), snd (CreateSemaphore Win32 True [JsNumber 2, JsNumber 5] initial)) \<and>
   SignalSemaphore Win32 [JsObject [(''id'', JsNumber 1)], JsNumber 4]
     (snd (CreateSemaphore Win32 True [JsNumber 2, JsNumber 5] initial)) =
     (Returns (JsNumber (- 1)), snd (CreateSemaphore Win32 True [JsNumber 2, JsNumber 5] initial))"
  using
    SignalSemaphore_failures_share_sentinel [of "JsObject [(''id'', JsNumber 1)]" 1 0 Win32 "[]"
      "snd (CreateSemaphore Win32 True [JsNumber 2, JsNumber 5] initial)" "[JsNumber 1]"]
    SignalSemaphore_failures_share_sentinel [of "JsObject [(''id'', JsNumber 9)]" 9 1 Win32 "[]"
      "snd (CreateSemaphore Win32 True [JsNumber 2, JsNumber 5] initial)" "[JsNumber 1]"]
    SignalSemaphore_failures_share_sentinel [of "JsObject [(''id'', JsNumber 1)]" 1 4 Win32 "[]"
      "snd (CreateSemaphore Win32 True [JsNumber 2, JsNumber 5] initial)" "[JsNumber 4]"]
  by (simp add: handle_id_def CreateSemaphore_def arg_def initial_def static_cast_double_def
      round_to_double_def CreateSemaphoreA_def)

section \<open>Locking with a timeout, and locking an unknown mutex\<close>

text \<open>
  Claim C8, as amended. \<open>lockMutex\<close> with a timeout on a mutex that another thread
  holds returns \<open>false\<close> and changes nothing. \<open>lockMutex\<close> on a handle that is not
  in the registry returns \<open>false\<close> as well, with or without a timeout: the source
  raises no error there, so the caller cannot tell the two outcomes apart.
\<close>

theorem LockMutex_false_outcomes:
  assumes "IsObject h" and "handle_id h = Some mutexId"
  shows "(mutexes s mutexId = None \<longrightarrow>
            LockMutex caller (h # args) s = (Returns (JsBoolean False), s)) \<and>
         (\<forall>it owner d.
            mutexes s mutexId = Some it \<and>
            (if isRecursive it then recursiveMutex it else mutex it) = Some (Locked owner d) \<and>
            owner \<noteq> caller \<and> Int32Value (JsNumber t) \<noteq> - 1 \<longrightarrow>
            LockMutex caller (h # JsNumber t # rest) s = (Returns (JsBoolean False), s))"
  using assms by (auto simp add: LockMutex_def arg_def Let_def)

text \<open>
  The claim as stated fails: thread 2 asks for mutex 1, which thread 1 holds, with a
  timeout of 50 ms, and for the unknown mutex 7. Both calls return \<open>false\<close>.
\<close>

theorem LockMutex_unknown_handle_counterexample:
  "fst (LockMutex 2 [JsObject [(''id'', JsNumber 1)], JsNumber 50]
         (run Win32 [CallCreateMutex [], CallLockMutex 1 [JsObject [(''id'', JsNumber 1)]]] initial))
     = Returns (JsBoolean False) \<and>
   fst (LockMutex 2 [JsObject [(''id'', JsNumber 7)], JsNumber 50]
         (run Win32 [CallCreateMutex [], CallLockMutex 1 [JsObject [(''id'', JsNumber 1)]]] initial))
     = Returns (JsBoolean False)"
  by (simp add: eval_defs)

theorem LockMutex_false_outcomes_witness:
  "LockMutex 2 [JsObject [(''id'', JsNumber 7)], JsNumber 50]
     (run Win32 [CallCreateMutex [], CallLockMutex 1 [JsObject [(''id'', JsNumber 1)]]] initial)
     = (Returns (JsBoolean False),
        run Win32 [CallCreateMutex [], CallLockMutex 1 [JsObject [(''id'', JsNumber 1)]]] initial) \<and>
   LockMutex 2 [JsObject [(''id'', JsNumber 1)], JsNumber 50]
     (run Win32 [CallCreateMutex [], CallLockMutex 1 [JsObject [(''id'', JsNumber 1)]]] initial)
     = (Returns (JsBoolean False),
        run Win32 [CallCreateMutex [], CallLockMutex 1 [JsObject [(''id'', JsNumber 1)]]] initial)"
  using
    LockMutex_false_outcomes [of "JsObject [(''id'', JsNumber 7)]" 7
      "run Win32 [CallCreateMutex [], CallLockMutex 1 [JsObject [(''id'', JsNumber 1)]]] initial"
      2 "[JsNumber 50]" 50 "[]"]
    LockMutex_false_outcomes [of "JsObject [(''id'', JsNumber 1)]" 1
      "run Win32 [CallCreateMutex [], CallLockMutex 1 [JsObject [(''id'', JsNumber 1)]]] initial"
      2 "[JsNumber 50]" 50 "[]"]
  by (simp add: eval_defs)

section \<open>Joining a consumed thread handle\<close>

text \<open>
  Claim C7, as amended. Once \<open>joinThread\<close> or \<open>detachThread\<close> has returned for a
  handle, \<open>joinThread\<close> on that handle throws the Error "Invalid thread handle" and
  changes nothing: exactly what it does for any handle that is not in the registry.
  The source keeps no record of consumed handles, so there is no separate answer
  for "already joined" or "detached".
\<close>

theorem JoinThread_after_join_or_detach:
  assumes "IsObject h" and "handle_id h = Some threadId"
    and "c = CallJoinThread (h # args) \<or> c = CallDetachThread (h # args)"
    and "exec pf c s = (Returns v, s')"
  shows "JoinThread (h # rest) s' = (Throws (Error ''Invalid thread handle''), s') \<and>
         (\<forall>u j. IsObject u \<and> handle_id u = Some j \<and> threads s' j = None \<longrightarrow>
            JoinThread (u # rest) s' = JoinThread (h # rest) s')"
proof -
  have "threads s' threadId = None"
    using assms
    by (auto simp add: JoinThread_def DetachThread_def arg_def split: option.splits if_splits)
  then show ?thesis
    using assms(1,2) by (auto simp add: JoinThread_def arg_def)
qed

text \<open>
  The claim as stated fails: a second join of thread 1, a join of thread 1 after its
  detach, and a join of the never issued handle 7 all end in the same error.
\<close>

theorem JoinThread_consumed_counterexample:
  "fst (JoinThread [JsObject [(''id'', JsNumber 1)]]
         (run Win32 [CallCreateThread Started [JsFunction True],
                     CallJoinThread [JsObject [(''id'', JsNumber 1)]]] initial))
     = Throws (Error ''Invalid thread handle'') \<and>
   fst (JoinThread [JsObject [(''id'', JsNumber 1)]]
         (run Win32 [CallCreateThread Started [JsFunction True],
                     CallDetachThread [JsObject [(''id'', JsNumber 1)]]] initial))
     = Throws (Error ''Invalid thread handle'') \<and>
   fst (JoinThread [JsObject [(''id'', JsNumber 7)]]
         (run Win32 [CallCreateThread Started [JsFunction True],
                     CallJoinThread [JsObject [(''id'', JsNumber 1)]]] initial))
     = Throws (Error ''Invalid thread handle'')"
  by (simp add: eval_defs)

theorem JoinThread_after_join_or_detach_witness:
  "exec Win32 (CallJoinThread [JsObject [(''id'', JsNumber 1)]])
      (run Win32 [CallCreateThread Started [JsFunction True]] initial) =
     (Returns (JsNumber 0), initial\<lparr>threadCounter := 1\<rparr>) \<and>
   JoinThread [JsObject [(''id'', JsNumber 1)]] (initial\<lparr>threadCounter := 1\<rparr>) =
     (Throws (Error ''Invalid thread handle''), initial\<lparr>threadCounter := 1\<rparr>)"
proof -
  have e: "exec Win32 (CallJoinThread [JsObject [(''id'', JsNumber 1)]])
      (run Win32 [CallCreateThread Started [JsFunction True]] initial) =
     (Returns (JsNumber 0), initial\<lparr>threadCounter := 1\<rparr>)"
    by (simp add: eval_defs)
  show ?thesis
    using e JoinThread_after_join_or_detach [of "JsObject [(''id'', JsNumber 1)]" 1
      "CallJoinThread [JsObject [(''id'', JsNumber 1)]]" "[]" Win32
      "run Win32 [CallCreateThread Started [JsFunction True]] initial"
      "JsNumber 0" "initial\<lparr>threadCounter := 1\<rparr>" "[]", OF _ _ _ e]
    by (simp add: handle_id_def)
qed

section \<open>The semaphore invariant\<close>

lemma sint32_add:
  "- 2147483648 \<le> sint a + sint b \<Longrightarrow> sint a + sint b \<le> 2147483647 \<Longrightarrow>
   sint (a + b :: 32 word) = sint a + sint b"
  by (simp add: sint_word_add signed_take_bit_int_eq_self)

lemma sint32_pred: "0 < sint a \<Longrightarrow> sint (a - 1 :: 32 word) = sint a - 1"
  using sint_lt [of a] by (simp add: sint_word_diff signed_take_bit_int_eq_self)

lemma sint32_max: "sint (a :: 32 word) \<le> 2147483647"
  using sint_lt [of a] by simp

lemma release_fits:
  assumes "sem_ok pf it" and "0 < sint count"
    and "sint (currentCount it) + sint count \<le> sint (maxCount it)"
  shows "(case pf of Win32 \<Rightarrow> ReleaseSemaphore (semaphore it) (nat (sint count))
          | Linux \<Rightarrow> sem_post_loop (nat (sint count)) (semaphore it)) =
         (True, (semaphore it)\<lparr>sem_value := sem_value (semaphore it) + nat (sint count)\<rparr>)"
proof (cases pf)
  case Win32
  then show ?thesis using assms by (simp add: sem_ok_def ReleaseSemaphore_def) arith
next
  case Linux
  have "sem_value (semaphore it) + nat (sint count) \<le> sem_limit (semaphore it)"
    using assms Linux sint32_max [of "maxCount it"]
    by (simp add: sem_ok_def SEM_VALUE_MAX_def) arith
  then show ?thesis using Linux by (simp add: sem_post_loop_fits)
qed

lemma SignalSemaphore_found:
  assumes "IsObject h" and "handle_id h = Some semId" and "semaphores s semId = Some it"
    and "sem_ok pf it" and "0 < sint (Int32Value (JsNumber c))"
    and "sint (currentCount it) + sint (Int32Value (JsNumber c)) \<le> 2147483647"
  shows "SignalSemaphore pf (h # JsNumber c # rest) s =
     (if sint (maxCount it) < sint (currentCount it) + sint (Int32Value (JsNumber c))
      then (Returns (JsNumber (- 1)), s)
      else (Returns (JsNumber (sint (currentCount it))),
            s\<lparr>semaphores := (semaphores s)(semId \<mapsto>
                 it\<lparr>semaphore := (semaphore it)\<lparr>sem_value :=
                        sem_value (semaphore it) + nat (sint (Int32Value (JsNumber c)))\<rparr>,
                    currentCount := currentCount it + Int32Value (JsNumber c)\<rparr>)\<rparr>))"
proof (cases "sint (maxCount it) < sint (currentCount it) + sint (Int32Value (JsNumber c))")
  case True
  then show ?thesis using assms by (simp add: SignalSemaphore_def arg_def)
next
  case False
  then have le: "sint (currentCount it) + sint (Int32Value (JsNumber c)) \<le> sint (maxCount it)"
    by simp
  show ?thesis
    using assms False release_fits [OF assms(4,5) le]
    by (simp add: SignalSemaphore_def arg_def Let_def del: Int32Value.simps)
qed

lemma sem_ok_signalled:
  assumes "sem_ok pf it" and "0 < sint count"
    and "sint (currentCount it) + sint count \<le> sint (maxCount it)"
  shows "sem_ok pf (it\<lparr>semaphore := (semaphore it)\<lparr>sem_value :=
                        sem_value (semaphore it) + nat (sint count)\<rparr>,
                    currentCount := currentCount it + count\<rparr>)"
proof -
  have "sint (currentCount it + count) = sint (currentCount it) + sint count"
    using assms sint32_max [of "maxCount it"] by (intro sint32_add) (simp_all add: sem_ok_def)
  then show ?thesis using assms by (cases pf) (simp_all add: sem_ok_def nat_add_distrib)
qed

lemma sem_ok_waited:
  assumes "sem_ok pf it" and "0 < sem_value (semaphore it)"
  shows "sem_ok pf (it\<lparr>semaphore := (semaphore it)\<lparr>sem_value := sem_value (semaphore it) - 1\<rparr>,
                    currentCount := currentCount it - 1\<rparr>)"
proof -
  have pos: "0 < sint (currentCount it)" using assms by (simp add: sem_ok_def)
  then show ?thesis
    using assms by (cases pf) (simp_all add: sem_ok_def sint32_pred nat_diff_distrib)
qed

lemma sem_ok_created:
  assumes "\<not> (sint initialCount < 0 \<or> sint maxCount' \<le> 0 \<or> sint initialCount > sint maxCount')"
  shows "sem_ok Win32 \<lparr>semaphore = CreateSemaphoreA initialCount maxCount',
                    semInfo_id = semId, maxCount = maxCount', currentCount = initialCount\<rparr>"
  using assms by (simp add: sem_ok_def CreateSemaphoreA_def)

lemma CreateSemaphore_sem_inv:
  "sem_inv pf s \<Longrightarrow> sem_inv pf (snd (CreateSemaphore pf ok info s))"
  using sem_ok_created
  by (cases pf) (auto simp add: sem_inv_def CreateSemaphore_def Let_def)

lemma WaitSemaphore_sem_inv:
  "sem_inv pf s \<Longrightarrow> sem_inv pf (snd (WaitSemaphore pf now info s))"
  using sem_ok_waited
  by (cases pf)
    (auto simp add: sem_inv_def WaitSemaphore_def Let_def os_wait_def sem_timedwait_def
      split: option.splits if_splits)

lemma SignalSemaphore_sem_inv:
  assumes "sem_inv pf s"
  shows "sem_inv pf (snd (SignalSemaphore pf info s))"
proof -
  define count where
    "count = (if length info > 1 \<and> IsNumber (arg info 1) then Int32Value (arg info 1) else 1)"
  have ok: "\<And>i it. semaphores s i = Some it \<Longrightarrow> sem_ok pf it"
    using assms by (simp add: sem_inv_def)
  show ?thesis
    unfolding SignalSemaphore_def Let_def count_def [symmetric]
    using assms
    by (auto simp add: sem_inv_def release_fits ok sem_ok_signalled
        split: option.splits if_splits)
qed

lemma exec_sem_inv: "sem_inv pf s \<Longrightarrow> sem_inv pf (snd (exec pf c s))"
proof (cases c)
  case (CallCreateSemaphore ok info)
  then show "sem_inv pf s \<Longrightarrow> ?thesis" by (simp add: CreateSemaphore_sem_inv)
next
  case (CallWaitSemaphore now info)
  then show "sem_inv pf s \<Longrightarrow> ?thesis" by (simp add: WaitSemaphore_sem_inv)
next
  case (CallSignalSemaphore info)
  then show "sem_inv pf s \<Longrightarrow> ?thesis" by (simp add: SignalSemaphore_sem_inv)
qed (simp_all add: sem_inv_def CreateThread_def JoinThread_def DetachThread_def CreateMutex_def
      LockMutex_def UnlockMutex_def Let_def split: option.split lock_result.split spawn.split)

lemma run_sem_inv: "sem_inv pf s \<Longrightarrow> sem_inv pf (run pf cs s)"
proof (induction cs arbitrary: s)
  case Nil
  then show ?case by simp
next
  case (Cons c cs)
  from Cons.prems have "sem_inv pf (snd (exec pf c s))" by (rule exec_sem_inv)
  with Cons.IH show ?case by (simp add: split_beta)
qed

lemma initial_sem_inv: "sem_inv pf initial"
  by (simp add: sem_inv_def initial_def)

text \<open>
  Claim C2. In every registry reached from the empty one by calls of the interface,
  on either platform, every semaphore satisfies \<open>0 \<le> currentCount \<le> maxCount\<close>.
  Creation establishes it (the bounds are validated first); a wait decrements the
  mirror only when the operating system has granted the wait; a signal adds to the
  mirror only after its check \<open>previousCount + count \<le> maxCount\<close> and after the
  release has succeeded. A sequence ends at a call that blocks for ever or that runs
  into undefined behaviour.
\<close>

theorem currentCount_within_bounds:
  assumes "semaphores (run pf cs initial) semId = Some it"
  shows "0 \<le> sint (currentCount it) \<and> sint (currentCount it) \<le> sint (maxCount it)"
proof -
  have "sem_inv pf (run pf cs initial)" using initial_sem_inv by (rule run_sem_inv)
  with assms have "sem_ok pf it" by (simp add: sem_inv_def)
  then show ?thesis by (simp add: sem_ok_def)
qed

theorem currentCount_within_bounds_witness:
  "semaphores
     (run Win32 [CallCreateSemaphore True [JsNumber 2, JsNumber 5],
                 CallWaitSemaphore 0 [JsObject [(''id'', JsNumber 1)]],
                 CallSignalSemaphore [JsObject [(''id'', JsNumber 1)], JsNumber 4]] initial) 1 =
     Some \<lparr>semaphore = \<lparr>sem_value = 5, sem_limit = 5\<rparr>, semInfo_id = 1,
           maxCount = 5, currentCount = 5\<rparr> \<and>
   0 \<le> sint (5 :: 32 word) \<and> sint (5 :: 32 word) \<le> sint (5 :: 32 word)"
proof -
  have r: "semaphores
     (run Win32 [CallCreateSemaphore True [JsNumber 2, JsNumber 5],
                 CallWaitSemaphore 0 [JsObject [(''id'', JsNumber 1)]],
                 CallSignalSemaphore [JsObject [(''id'', JsNumber 1)], JsNumber 4]] initial) 1 =
     Some \<lparr>semaphore = \<lparr>sem_value = 5, sem_limit = 5\<rparr>, semInfo_id = 1,
           maxCount = 5, currentCount = 5\<rparr>"
    by (simp add: eval_defs)
  show ?thesis using r currentCount_within_bounds [OF r] by simp
qed

section \<open>Signalling a semaphore\<close>

text \<open>
  Claim C1, as amended. For a semaphore of a registry reached from the empty one and
  a release count \<open>c\<close> read as a 32-bit integer: a count \<open>\<le> 0\<close> returns \<open>-1\<close> and
  changes nothing. For a count \<open>\<ge> 1\<close> whose sum with \<open>currentCount\<close> fits an
  \<open>int\<close>, the call compares \<open>currentCount + c\<close> with \<open>maxCount\<close> before it
  releases: beyond \<open>maxCount\<close> it returns \<open>-1\<close>, the value of every other failure,
  and the registry (the count of the operating system's semaphore and the mirror)
  is unchanged; otherwise it returns the \<open>currentCount\<close> from before the release,
  and both the operating system's count and the mirror have grown by \<open>c\<close>.
\<close>

theorem SignalSemaphore_release:
  assumes "IsObject h" and "handle_id h = Some semId"
    and "s = run pf cs initial" and "semaphores s semId = Some it"
    and "count = Int32Value (JsNumber c)"
  shows "(sint count \<le> 0 \<longrightarrow>
            SignalSemaphore pf (h # JsNumber c # rest) s = (Returns (JsNumber (- 1)), s)) \<and>
         (0 < sint count \<and> sint (currentCount it) + sint count \<le> 2147483647 \<and>
          sint (maxCount it) < sint (currentCount it) + sint count \<longrightarrow>
            SignalSemaphore pf (h # JsNumber c # rest) s = (Returns (JsNumber (- 1)), s)) \<and>
         (0 < sint count \<and> sint (currentCount it) + sint count \<le> sint (maxCount it) \<longrightarrow>
            SignalSemaphore pf (h # JsNumber c # rest) s =
              (Returns (JsNumber (sint (currentCount it))),
               s\<lparr>semaphores := (semaphores s)(semId \<mapsto>
                    it\<lparr>semaphore := (semaphore it)\<lparr>sem_value :=
                           sem_value (semaphore it) + nat (sint count)\<rparr>,
                       currentCount := currentCount it + count\<rparr>)\<rparr>))"
proof -
  have "sem_inv pf s" unfolding assms(3) using initial_sem_inv by (rule run_sem_inv)
  with assms(4) have ok: "sem_ok pf it" by (simp add: sem_inv_def)
  have m: "sint (maxCount it) \<le> 2147483647" by (rule sint32_max)
  show ?thesis
    using assms(1,2,4) m SignalSemaphore_found [OF assms(1,2,4) ok, of c rest]
    by (auto simp add: assms(5) SignalSemaphore_def arg_def)
qed

text \<open>
  The claim as stated fails for the count 0: on a semaphore with \<open>currentCount = 2\<close>
  and \<open>maxCount = 5\<close> the check \<open>2 + 0 \<le> 5\<close> holds, yet the call returns \<open>-1\<close>
  and not the previous count 2.
\<close>

theorem SignalSemaphore_zero_count_counterexample:
  "map_option currentCount
     (semaphores (run Win32 [CallCreateSemaphore True [JsNumber 2, JsNumber 5]] initial) 1) = Some 2 \<and>
   map_option maxCount
     (semaphores (run Win32 [CallCreateSemaphore True [JsNumber 2, JsNumber 5]] initial) 1) = Some 5 \<and>
   fst (SignalSemaphore Win32 [JsObject [(''id'', JsNumber 1)], JsNumber 0]
          (run Win32 [CallCreateSemaphore True [JsNumber 2, JsNumber 5]] initial)) =
     Returns (JsNumber (- 1)) \<and>
   fst (SignalSemaphore Win32 [JsObject [(''id'', JsNumber 1)], JsNumber 0]
          (run Win32 [CallCreateSemaphore True [JsNumber 2, JsNumber 5]] initial)) \<noteq>
     Returns (JsNumber 2)"
  by (simp add: eval_defs)

theorem SignalSemaphore_release_witness:
  "fst (SignalSemaphore Win32 [JsObject [(''id'', JsNumber 1)], JsNumber 3]
          (run Win32 [CallCreateSemaphore True [JsNumber 2, JsNumber 5]] initial)) =
     Returns (JsNumber 2) \<and>
   map_option currentCount
     (semaphores
        (snd (SignalSemaphore Win32 [JsObject [(''id'', JsNumber 1)], JsNumber 3]
               (run Win32 [CallCreateSemaphore True [JsNumber 2, JsNumber 5]] initial))) 1) = Some 5 \<and>
   SignalSemaphore Win32 [JsObject [(''id'', JsNumber 1)], JsNumber 4]
     (run Win32 [CallCreateSemaphore True [JsNumber 2, JsNumber 5]] initial) =
     (Returns (JsNumber (- 1)), run Win32 [CallCreateSemaphore True [JsNumber 2, JsNumber 5]] initial)"
proof -
  let ?s = "run Win32 [CallCreateSemaphore True [JsNumber 2, JsNumber 5]] initial"
  let ?it = "\<lparr>semaphore = \<lparr>sem_value = 2, sem_limit = 5\<rparr>, semInfo_id = 1,
              maxCount = 5, currentCount = 2\<rparr>"
  have f: "semaphores ?s 1 = Some ?it" by (simp add: eval_defs)
  have o: "IsObject (JsObject [(''id'', JsNumber 1)])" by simp
  have i: "handle_id (JsObject [(''id'', JsNumber 1)]) = Some 1" by (simp add: handle_id_def)
  show ?thesis
    using SignalSemaphore_release [OF o i refl f refl, of 3 "[]"]
      SignalSemaphore_release [OF o i refl f refl, of 4 "[]"]
    by simp
qed

section \<open>The counters\<close>

lemma LockMutex_frame:
  "threads (snd (LockMutex caller info s)) = threads s \<and>
   semaphores (snd (LockMutex caller info s)) = semaphores s \<and>
   counter k (snd (LockMutex caller info s)) = counter k s"
  by (cases k) (simp_all add: LockMutex_def Let_def split: option.split lock_result.split)

lemma UnlockMutex_frame:
  "threads (snd (UnlockMutex caller info s)) = threads s \<and>
   semaphores (snd (UnlockMutex caller info s)) = semaphores s \<and>
   counter k (snd (UnlockMutex caller info s)) = counter k s"
  by (cases k) (simp_all add: UnlockMutex_def Let_def split: option.split)

lemma CreateMutex_frame:
  "threads (snd (CreateMutex info s)) = threads s \<and>
   semaphores (snd (CreateMutex info s)) = semaphores s \<and>
   (counter k (snd (CreateMutex info s)) = counter k s \<or>
    counter k (snd (CreateMutex info s)) = counter k s + 1)"
  by (cases k) (simp_all add: CreateMutex_def Let_def)

lemma CreateThread_frame:
  "semaphores (snd (CreateThread f info s)) = semaphores s \<and>
   (counter k (snd (CreateThread f info s)) = counter k s \<or>
    counter k (snd (CreateThread f info s)) = counter k s + 1)"
  by (cases k) (simp_all add: CreateThread_def Let_def split: spawn.split)

lemma JoinThread_frame:
  "semaphores (snd (JoinThread info s)) = semaphores s \<and>
   counter k (snd (JoinThread info s)) = counter k s"
  by (cases k) (simp_all add: JoinThread_def Let_def split: option.split)

lemma DetachThread_frame:
  "semaphores (snd (DetachThread info s)) = semaphores s \<and>
   counter k (snd (DetachThread info s)) = counter k s"
  by (cases k) (simp_all add: DetachThread_def Let_def split: option.split)

lemma CreateSemaphore_frame:
  "threads (snd (CreateSemaphore pf ok info s)) = threads s \<and>
   (counter k (snd (CreateSemaphore pf ok info s)) = counter k s \<or>
    counter k (snd (CreateSemaphore pf ok info s)) = counter k s + 1)"
  by (cases k; cases pf) (simp_all add: CreateSemaphore_def Let_def)

lemma WaitSemaphore_frame:
  "threads (snd (WaitSemaphore pf now info s)) = threads s \<and>
   counter k (snd (WaitSemaphore pf now info s)) = counter k s"
  by (cases k) (simp_all add: WaitSemaphore_def Let_def split: option.split wait_result.split)

lemma SignalSemaphore_frame:
  "threads (snd (SignalSemaphore pf info s)) = threads s \<and>
   counter k (snd (SignalSemaphore pf info s)) = counter k s"
  by (cases k)
    (simp_all add: SignalSemaphore_def Let_def split: option.split prod.split bool.split)

lemmas frames = LockMutex_frame UnlockMutex_frame CreateMutex_frame CreateThread_frame
  JoinThread_frame DetachThread_frame CreateSemaphore_frame WaitSemaphore_frame
  SignalSemaphore_frame

lemma counter_step:
  "counter k (snd (exec pf c s)) = counter k s \<or> counter k (snd (exec pf c s)) = counter k s + 1"
  by (cases c) (simp_all add: frames)


section \<open>The ids issued with handles\<close>









section \<open>Live ids and the counters\<close>

text \<open>
  A call adds at most one id to the live ids of a kind, and then it is the id just
  taken from the counter of that kind.
\<close>

lemma LockMutex_live: "live k (snd (LockMutex caller info s)) \<subseteq> live k s"
  by (cases k)
    (simp_all add: LockMutex_def Let_def domI subset_insertI split: option.split lock_result.split)

lemma UnlockMutex_live: "live k (snd (UnlockMutex caller info s)) \<subseteq> live k s"
  by (cases k) (simp_all add: UnlockMutex_def Let_def domI split: option.split)

lemma JoinThread_live: "live k (snd (JoinThread info s)) \<subseteq> live k s"
  by (cases k) (auto simp add: JoinThread_def Let_def split: option.split)

lemma DetachThread_live: "live k (snd (DetachThread info s)) \<subseteq> live k s"
  by (cases k) (auto simp add: DetachThread_def Let_def split: option.split)

lemma WaitSemaphore_live: "live k (snd (WaitSemaphore pf now info s)) \<subseteq> live k s"
  by (cases k)
    (simp_all add: WaitSemaphore_def Let_def domI split: option.split wait_result.split)

lemma SignalSemaphore_live: "live k (snd (SignalSemaphore pf info s)) \<subseteq> live k s"
  by (cases k)
    (simp_all add: SignalSemaphore_def Let_def domI split: option.split prod.split bool.split)

lemma CreateThread_live:
  "live k (snd (CreateThread f info s)) \<subseteq>
   live k s \<union> {i. i = counter k s + 1 \<and> counter k (snd (CreateThread f info s)) = counter k s + 1}"
  by (cases k) (auto simp add: CreateThread_def Let_def split: spawn.split)

lemma CreateMutex_live:
  "live k (snd (CreateMutex info s)) \<subseteq>
   live k s \<union> {i. i = counter k s + 1 \<and> counter k (snd (CreateMutex info s)) = counter k s + 1}"
  by (cases k) (auto simp add: CreateMutex_def Let_def)

lemma CreateSemaphore_live:
  "live k (snd (CreateSemaphore pf ok info s)) \<subseteq>
   live k s \<union>
   {i. i = counter k s + 1 \<and> counter k (snd (CreateSemaphore pf ok info s)) = counter k s + 1}"
  by (cases k; cases pf) (auto simp add: CreateSemaphore_def Let_def)

lemma live_step:
  "live k (snd (exec pf c s)) \<subseteq>
   live k s \<union> {i. i = counter k s + 1 \<and> counter k (snd (exec pf c s)) = counter k s + 1}"
proof (cases c)
  case (CallCreateThread f info)
  then show ?thesis using CreateThread_live [of k f info s] by simp
next
  case (CallJoinThread info)
  then show ?thesis using JoinThread_live [of k info s] by auto
next
  case (CallDetachThread info)
  then show ?thesis using DetachThread_live [of k info s] by auto
next
  case (CallCreateMutex info)
  then show ?thesis using CreateMutex_live [of k info s] by simp
next
  case (CallLockMutex caller info)
  then show ?thesis using LockMutex_live [of k caller info s] by auto
next
  case (CallUnlockMutex caller info)
  then show ?thesis using UnlockMutex_live [of k caller info s] by auto
next
  case (CallCreateSemaphore ok info)
  then show ?thesis using CreateSemaphore_live [of k pf ok info s] by simp
next
  case (CallWaitSemaphore now info)
  then show ?thesis using WaitSemaphore_live [of k pf now info s] by auto
next
  case (CallSignalSemaphore info)
  then show ?thesis using SignalSemaphore_live [of k pf info s] by auto
qed

lemma issued_step:
  assumes inv: "\<forall>i \<in> live k s. i \<noteq> 0 \<and> unat i \<le> unat (counter k s)"
    and room: "unat (counter k s) + 1 < 2 ^ 64"
  shows "\<forall>i \<in> live k (snd (exec pf c s)).
           i \<noteq> 0 \<and> unat i \<le> unat (counter k (snd (exec pf c s)))"
proof
  fix i
  assume i: "i \<in> live k (snd (exec pf c s))"
  have next_id: "unat (counter k s + 1) = unat (counter k s) + 1"
    using room by (rule unat_next_id)
  have mono: "unat (counter k s) \<le> unat (counter k (snd (exec pf c s)))"
    using counter_step [of k pf c s] next_id by auto
  from i live_step [of k pf c s]
  consider "i \<in> live k s"
    | "i = counter k s + 1" "counter k (snd (exec pf c s)) = counter k s + 1"
    by auto
  then show "i \<noteq> 0 \<and> unat i \<le> unat (counter k (snd (exec pf c s)))"
  proof cases
    case 1
    then show ?thesis using inv mono by auto
  next
    case 2
    have "unat i \<noteq> 0" using 2(1) next_id by simp
    then have "i \<noteq> 0" by auto
    then show ?thesis using 2 by simp
  qed
qed

lemma counter_run:
  "unat (counter k (run pf cs s)) \<le> unat (counter k s) + length cs"
proof (induction cs arbitrary: s)
  case Nil
  then show ?case by simp
next
  case (Cons c cs)
  have "unat (counter k s + 1) \<le> unat (counter k s) + 1"
    by (simp add: unat_word_ariths)
  then have one: "unat (counter k (snd (exec pf c s))) \<le> unat (counter k s) + 1"
    using counter_step [of k pf c s] by auto
  show ?case
  proof (cases "continues (fst (exec pf c s))")
    case True
    then show ?thesis
      using Cons.IH [of "snd (exec pf c s)"] one by (simp add: split_beta)
  next
    case False
    then show ?thesis using one by (simp add: split_beta)
  qed
qed

lemma issued_run:
  assumes "\<forall>i \<in> live k s. i \<noteq> 0 \<and> unat i \<le> unat (counter k s)"
    and "unat (counter k s) + length cs < 2 ^ 64"
  shows "\<forall>i \<in> live k (run pf cs s). i \<noteq> 0 \<and> unat i \<le> unat (counter k (run pf cs s))"
  using assms
proof (induction cs arbitrary: s)
  case Nil
  then show ?case by simp
next
  case (Cons c cs)
  from Cons.prems have room: "unat (counter k s) + 1 < 2 ^ 64" by simp
  have inv': "\<forall>i \<in> live k (snd (exec pf c s)).
      i \<noteq> 0 \<and> unat i \<le> unat (counter k (snd (exec pf c s)))"
    using Cons.prems(1) room by (rule issued_step)
  have "unat (counter k (snd (exec pf c s))) \<le> unat (counter k s) + 1"
    using counter_step [of k pf c s] unat_next_id [OF room] by auto
  then have room': "unat (counter k (snd (exec pf c s))) + length cs < 2 ^ 64"
    using Cons.prems(2) by simp
  show ?case
    using Cons.IH [OF inv' room'] inv' by (simp add: split_beta)
qed

lemma gone_run:
  assumes "i \<notin> live k s" and "unat i \<le> unat (counter k s)"
    and "unat (counter k s) + length cs < 2 ^ 64"
  shows "i \<notin> live k (run pf cs s)"
  using assms
proof (induction cs arbitrary: s)
  case Nil
  then show ?case by simp
next
  case (Cons c cs)
  let ?s' = "snd (exec pf c s)"
  from Cons.prems have room: "unat (counter k s) + 1 < 2 ^ 64" by simp
  note next_id = unat_next_id [OF room]
  have step: "counter k ?s' = counter k s \<or> counter k ?s' = counter k s + 1"
    by (rule counter_step)
  have gone: "i \<notin> live k ?s'"
  proof
    assume "i \<in> live k ?s'"
    with live_step [of k pf c s] Cons.prems(1) have "i = counter k s + 1" by auto
    with next_id Cons.prems(2) show False by simp
  qed
  have below: "unat i \<le> unat (counter k ?s')"
    using step next_id Cons.prems(2) by auto
  have "unat (counter k ?s') \<le> unat (counter k s) + 1"
    using step next_id by auto
  then have room': "unat (counter k ?s') + length cs < 2 ^ 64"
    using Cons.prems(3) by simp
  show ?case
    using Cons.IH [OF gone below room'] gone by (simp add: split_beta)
qed

lemma initial_issued: "\<forall>i \<in> live k initial. i \<noteq> 0 \<and> unat i \<le> unat (counter k initial)"
  by (cases k) (simp_all add: initial_def)

lemma initial_counter: "counter k initial = 0"
  by (cases k) (simp_all add: initial_def)

section \<open>A consumed thread handle\<close>

text \<open>
  Claim C6. Take a thread handle that is live after some calls, and let
  \<open>joinThread\<close> or \<open>detachThread\<close> return for it. Then after any further calls
  the handle does not resolve: the registry has no entry under its id, \<open>joinThread\<close>
  throws the Error "Invalid thread handle", which is how the source reports a handle
  that is not found, and \<open>detachThread\<close> returns \<open>false\<close>; neither changes the
  registry. The whole sequence has fewer than \<open>2 ^ 64\<close> calls, so the thread
  counter has not wrapped around.
\<close>

theorem consumed_thread_handle_stays_unknown:
  assumes "IsObject h" and "handle_id h = Some threadId"
    and "length cs1 + 1 + length cs2 < 2 ^ 64"
    and "s1 = run pf cs1 initial" and "threads s1 threadId \<noteq> None"
    and "c = CallJoinThread (h # args) \<or> c = CallDetachThread (h # args)"
    and "exec pf c s1 = (Returns v, s2)"
    and "s3 = run pf cs2 s2"
  shows "threads s3 threadId = None \<and>
         JoinThread (h # rest) s3 = (Throws (Error ''Invalid thread handle''), s3) \<and>
         DetachThread (h # rest) s3 = (Returns (JsBoolean False), s3)"
proof -
  have c1: "unat (counter ThreadKind s1) \<le> length cs1"
    using counter_run [of ThreadKind pf cs1 initial] by (simp add: assms(4) initial_counter)
  have "unat (counter ThreadKind initial) + length cs1 < 2 ^ 64"
    using assms(3) by (simp add: initial_counter)
  with initial_issued
  have "\<forall>i \<in> live ThreadKind s1. i \<noteq> 0 \<and> unat i \<le> unat (counter ThreadKind s1)"
    unfolding assms(4) by (rule issued_run)
  with assms(5) have below1: "unat threadId \<le> unat (threadCounter s1)" by auto
  have s2: "threads s2 threadId = None \<and> threadCounter s2 = threadCounter s1"
    using assms(1,2,6,7)
    by (auto simp add: JoinThread_def DetachThread_def arg_def split: option.splits if_splits)
  have "threadId \<notin> live ThreadKind (run pf cs2 s2)"
  proof (rule gone_run)
    show "threadId \<notin> live ThreadKind s2" using s2 by (simp add: domIff)
    show "unat threadId \<le> unat (counter ThreadKind s2)" using s2 below1 by simp
    show "unat (counter ThreadKind s2) + length cs2 < 2 ^ 64"
      using s2 c1 assms(3) by simp
  qed
  then have "threads s3 threadId = None" by (simp add: assms(8) domIff)
  then show ?thesis
    using assms(1,2) by (simp add: JoinThread_def DetachThread_def arg_def)
qed

theorem consumed_thread_handle_stays_unknown_witness:
  "threads
     (run Win32 [CallCreateThread Started [JsFunction True]]
        (snd (exec Win32 (CallJoinThread [JsObject [(''id'', JsNumber 1)]])
               (run Win32 [CallCreateThread Started [JsFunction True]] initial)))) 1 = None \<and>
   fst (JoinThread [JsObject [(''id'', JsNumber 1)]]
     (run Win32 [CallCreateThread Started [JsFunction True]]
        (snd (exec Win32 (CallJoinThread [JsObject [(''id'', JsNumber 1)]])
               (run Win32 [CallCreateThread Started [JsFunction True]] initial))))) =
     Throws (Error ''Invalid thread handle'') \<and>
   fst (DetachThread [JsObject [(''id'', JsNumber 1)]]
     (run Win32 [CallCreateThread Started [JsFunction True]]
        (snd (exec Win32 (CallJoinThread [JsObject [(''id'', JsNumber 1)]])
               (run Win32 [CallCreateThread Started [JsFunction True]] initial))))) =
     Returns (JsBoolean False)"
proof -
  let ?h = "JsObject [(''id'', JsNumber 1)]"
  let ?cs = "[CallCreateThread Started [JsFunction True]]"
  let ?s1 = "run Win32 ?cs initial"
  let ?s2 = "snd (exec Win32 (CallJoinThread [?h]) ?s1)"
  have o: "IsObject ?h" by simp
  have i: "handle_id ?h = Some 1" by (simp add: handle_id_def)
  have l: "length ?cs + 1 + length ?cs < 2 ^ 64" by simp
  have t: "threads ?s1 1 \<noteq> None" by (simp add: eval_defs)
  have c: "CallJoinThread [?h] = CallJoinThread (?h # []) \<or>
           CallJoinThread [?h] = CallDetachThread (?h # [])" by simp
  have e: "exec Win32 (CallJoinThread [?h]) ?s1 = (Returns (JsNumber 0), ?s2)"
    by (simp add: eval_defs)
  show ?thesis
    using consumed_thread_handle_stays_unknown [OF o i l refl t c e refl, of "[]"] by simp
qed

section \<open>Ids within a kind and across kinds\<close>

lemma CreateThread_ids_match: "ids_match s \<Longrightarrow> ids_match (snd (CreateThread f info s))"
  by (simp add: ids_match_def CreateThread_def Let_def split: spawn.split)

lemma JoinThread_ids_match: "ids_match s \<Longrightarrow> ids_match (snd (JoinThread info s))"
  by (simp add: ids_match_def JoinThread_def Let_def split: option.split)

lemma DetachThread_ids_match: "ids_match s \<Longrightarrow> ids_match (snd (DetachThread info s))"
  by (simp add: ids_match_def DetachThread_def Let_def split: option.split)

lemma CreateMutex_ids_match: "ids_match s \<Longrightarrow> ids_match (snd (CreateMutex info s))"
  by (simp add: ids_match_def CreateMutex_def Let_def)

lemma LockMutex_ids_match: "ids_match s \<Longrightarrow> ids_match (snd (LockMutex caller info s))"
  by (simp add: ids_match_def LockMutex_def Let_def split: option.split lock_result.split)

lemma UnlockMutex_ids_match: "ids_match s \<Longrightarrow> ids_match (snd (UnlockMutex caller info s))"
  by (simp add: ids_match_def UnlockMutex_def Let_def split: option.split)

lemma CreateSemaphore_ids_match:
  "ids_match s \<Longrightarrow> ids_match (snd (CreateSemaphore pf ok info s))"
  by (cases pf) (simp_all add: ids_match_def CreateSemaphore_def Let_def)

lemma WaitSemaphore_ids_match:
  "ids_match s \<Longrightarrow> ids_match (snd (WaitSemaphore pf now info s))"
  by (simp add: ids_match_def WaitSemaphore_def Let_def split: option.split wait_result.split)

lemma SignalSemaphore_ids_match:
  "ids_match s \<Longrightarrow> ids_match (snd (SignalSemaphore pf info s))"
  by (simp add: ids_match_def SignalSemaphore_def Let_def
      split: option.split prod.split bool.split)

lemma exec_ids_match: "ids_match s \<Longrightarrow> ids_match (snd (exec pf c s))"
  by (cases c)
    (simp_all add: CreateThread_ids_match JoinThread_ids_match DetachThread_ids_match
      CreateMutex_ids_match LockMutex_ids_match UnlockMutex_ids_match
      CreateSemaphore_ids_match WaitSemaphore_ids_match SignalSemaphore_ids_match)

lemma run_ids_match: "ids_match s \<Longrightarrow> ids_match (run pf cs s)"
proof (induction cs arbitrary: s)
  case Nil
  then show ?case by simp
next
  case (Cons c cs)
  from Cons.prems have "ids_match (snd (exec pf c s))" by (rule exec_ids_match)
  with Cons.IH show ?case by (simp add: split_beta)
qed

lemma initial_ids_match: "ids_match initial"
  by (simp add: ids_match_def initial_def)

text \<open>
  Claim C4, as amended. Within one kind no two live entries share a handle id: in
  every registry reached from the empty one, two distinct entries of the thread
  registry carry different ids, and likewise for mutexes and for semaphores; and
  while fewer than \<open>2 ^ 64\<close> calls have been made, the id that the next creation of
  a kind takes is not the id of a live entry of that kind. Entries of different
  kinds may share an id, since each kind has its own counter and its own map.
\<close>

theorem ids_differ_within_a_kind:
  assumes "length cs < 2 ^ 64" and "s = run pf cs initial"
  shows "(\<forall>i j t u. threads s i = Some t \<and> threads s j = Some u \<and> i \<noteq> j \<longrightarrow>
            threadInfo_id t \<noteq> threadInfo_id u) \<and>
         (\<forall>i j m n. mutexes s i = Some m \<and> mutexes s j = Some n \<and> i \<noteq> j \<longrightarrow>
            mutexInfo_id m \<noteq> mutexInfo_id n) \<and>
         (\<forall>i j x y. semaphores s i = Some x \<and> semaphores s j = Some y \<and> i \<noteq> j \<longrightarrow>
            semInfo_id x \<noteq> semInfo_id y) \<and>
         (\<forall>k. counter k s + 1 \<notin> live k s)"
proof -
  have m: "ids_match s" unfolding assms(2) using initial_ids_match by (rule run_ids_match)
  have fresh: "counter k s + 1 \<notin> live k s" for k
  proof
    assume a: "counter k s + 1 \<in> live k s"
    have "unat (counter k initial) + length cs < 2 ^ 64"
      using assms(1) by (simp add: initial_counter)
    with initial_issued
    have "\<forall>i \<in> live k s. i \<noteq> 0 \<and> unat i \<le> unat (counter k s)"
      unfolding assms(2) by (rule issued_run)
    with a have nz: "counter k s + 1 \<noteq> 0"
      and le: "unat (counter k s + 1) \<le> unat (counter k s)" by auto
    from nz have "1 + counter k s \<noteq> 0" by (simp add: add.commute)
    then have "unat (1 + counter k s) = Suc (unat (counter k s))" by (rule unatSuc)
    with le show False by (simp add: add.commute)
  qed
  from m fresh show ?thesis by (auto simp add: ids_match_def)
qed

text \<open>
  The claim as stated fails: the first thread, the first mutex and the first
  semaphore all get the id 1, and the handles returned for the thread and for the
  mutex are equal.
\<close>

theorem ids_shared_across_kinds_counterexample:
  "map_option threadInfo_id
     (threads (run Win32 [CallCreateThread Started [JsFunction True], CallCreateMutex [],
                          CallCreateSemaphore True [JsNumber 1, JsNumber 1]] initial) 1) = Some 1 \<and>
   map_option mutexInfo_id
     (mutexes (run Win32 [CallCreateThread Started [JsFunction True], CallCreateMutex [],
                          CallCreateSemaphore True [JsNumber 1, JsNumber 1]] initial) 1) = Some 1 \<and>
   map_option semInfo_id
     (semaphores (run Win32 [CallCreateThread Started [JsFunction True], CallCreateMutex [],
                             CallCreateSemaphore True [JsNumber 1, JsNumber 1]] initial) 1) = Some 1 \<and>
   outcomes Win32 [CallCreateThread Started [JsFunction True], CallCreateMutex []] initial =
     [Returns (JsObject [(''id'', JsNumber 1), (''handle'', JsExternal)]),
      Returns (JsObject [(''id'', JsNumber 1), (''handle'', JsExternal)])]"
  by (simp add: eval_defs)

theorem ids_differ_within_a_kind_witness:
  "map_option threadInfo_id
     (threads (run Win32 [CallCreateThread Started [JsFunction True],
                          CallCreateThread Started [JsFunction False]] initial) 1) = Some 1 \<and>
   map_option threadInfo_id
     (threads (run Win32 [CallCreateThread Started [JsFunction True],
                          CallCreateThread Started [JsFunction False]] initial) 2) = Some 2 \<and>
   counter ThreadKind (run Win32 [CallCreateThread Started [JsFunction True],
                          CallCreateThread Started [JsFunction False]] initial) + 1 \<notin>
     live ThreadKind (run Win32 [CallCreateThread Started [JsFunction True],
                          CallCreateThread Started [JsFunction False]] initial)"
proof -
  let ?cs = "[CallCreateThread Started [JsFunction True], CallCreateThread Started [JsFunction False]]"
  have l: "length ?cs < 2 ^ 64" by simp
  have a: "map_option threadInfo_id (threads (run Win32 ?cs initial) 1) = Some 1"
    and b: "map_option threadInfo_id (threads (run Win32 ?cs initial) 2) = Some 2"
    by (simp_all add: eval_defs)
  show ?thesis
    using a b ids_differ_within_a_kind [OF l refl, of Win32] by blast
qed

end
